theory Spec2Isabelle
  imports Main "HOL-Library.Word"
begin

section \<open>The build target\<close>

text \<open>
  \<open>allocator_malloc.h\<close> is configured by the preprocessor. A build target says which
  platform macros are defined, whether the user has defined
  \<open>EASTL_ALIGNED_MALLOC_AVAILABLE\<close> before the header is read (the header only defines
  it \<open>#if !defined\<close>), and the value of \<open>EASTL_SYSTEM_ALLOCATOR_MIN_ALIGNMENT\<close>,
  a constant of EASTL's configuration header that the file uses and does not define.
  \<open>size_t\<close> is a word \<open>'a word\<close> of the target's width \<open>'a\<close>; the record and the
  datatype of calls below are polymorphic in the type \<open>'w\<close> of sizes and pointers and
  are used at \<open>'a word\<close>.
\<close>

record 'w target =
  predefined_ALIGNED_MALLOC_AVAILABLE :: "bool option"
  EA_PLATFORM_POSIX :: bool
  EA_PLATFORM_APPLE :: bool
  EA_PLATFORM_MICROSOFT :: bool
  EASTL_SYSTEM_ALLOCATOR_MIN_ALIGNMENT :: 'w

text \<open>Lines 28 to 55 of the header.\<close>

definition EASTL_ALIGNED_MALLOC_AVAILABLE :: "'w target \<Rightarrow> bool" where
  "EASTL_ALIGNED_MALLOC_AVAILABLE T =
     (case predefined_ALIGNED_MALLOC_AVAILABLE T of
        Some b \<Rightarrow> b
      | None \<Rightarrow>
          (if (EA_PLATFORM_POSIX T \<and> \<not> EA_PLATFORM_APPLE T) \<or> EA_PLATFORM_MICROSOFT T
           then True else False))"

section \<open>The C library\<close>

text \<open>
  The adapter implements no heap of its own; every block comes from a primitive of the
  platform's C library. A primitive call is a value; the library is a function that
  answers a call in a heap state \<open>'h\<close> with the pointer it returns (\<open>NULL\<close> is 0; the
  pointer of a \<open>free\<close> is not used) and the next heap state. The world the adapter
  runs in holds the heap and the list of primitive calls made so far, as an
  instrumented C library would record them.
\<close>

datatype 'w prim_call =
    Malloc 'w
  | Aligned_malloc 'w 'w
  | Aligned_offset_malloc 'w 'w 'w
  | Memalign 'w 'w
  | Free 'w
  | Aligned_free 'w

type_synonym ('w, 'h) libc = "'w prim_call \<Rightarrow> 'h \<Rightarrow> 'w \<times> 'h"

record ('w, 'h) world =
  heap :: 'h
  calls :: "'w prim_call list"

definition NULL :: "'a::len word" where
  "NULL = 0"

definition invoke ::
  "('w, 'h) libc \<Rightarrow> 'w prim_call \<Rightarrow> ('w, 'h) world \<Rightarrow> 'w \<times> ('w, 'h) world" where
  "invoke L c s =
     (case L c (heap s) of
        (p, h') \<Rightarrow> (p, s\<lparr>heap := h', calls := calls s @ [c]\<rparr>))"

section \<open>The adapter\<close>

text \<open>
  \<open>class allocator_malloc\<close> has no data member: an instance carries nothing. The
  constructors take a name (\<open>const char* = NULL\<close>, here a \<open>string option\<close>) or another
  instance, and have empty bodies.
\<close>

datatype allocator_malloc = Allocator_malloc

definition construct :: "string option \<Rightarrow> allocator_malloc" where
  "construct name = Allocator_malloc"

definition copy_construct :: "allocator_malloc \<Rightarrow> allocator_malloc" where
  "copy_construct x = Allocator_malloc"

definition copy_construct_named :: "allocator_malloc \<Rightarrow> string option \<Rightarrow> allocator_malloc" where
  "copy_construct_named x name = Allocator_malloc"

definition assign :: "allocator_malloc \<Rightarrow> allocator_malloc \<Rightarrow> allocator_malloc" where
  "assign this x = this"

definition op_eq :: "allocator_malloc \<Rightarrow> allocator_malloc \<Rightarrow> bool" where
  "op_eq this x = True"

definition op_ne :: "allocator_malloc \<Rightarrow> allocator_malloc \<Rightarrow> bool" where
  "op_ne this x = False"

definition get_name :: "allocator_malloc \<Rightarrow> string" where
  "get_name this = ''allocator_malloc''"

definition set_name :: "allocator_malloc \<Rightarrow> string option \<Rightarrow> allocator_malloc" where
  "set_name this name = this"

text \<open>
  The ways an instance comes to be and is changed afterwards: a construction, then any
  sequence of \<open>set_name\<close> calls and assignments.
\<close>

datatype origin =
    Default "string option"
  | Copy origin
  | Copy_named origin "string option"

fun build :: "origin \<Rightarrow> allocator_malloc" where
  "build (Default name) = construct name"
| "build (Copy x) = copy_construct (build x)"
| "build (Copy_named x name) = copy_construct_named (build x) name"

datatype mutation = Set_name "string option" | Assign origin

fun mutate :: "allocator_malloc \<Rightarrow> mutation list \<Rightarrow> allocator_malloc" where
  "mutate a [] = a"
| "mutate a (Set_name name # ms) = mutate (set_name a name) ms"
| "mutate a (Assign x # ms) = mutate (assign a (build x)) ms"

text \<open>
  The unsigned \<open>%\<close> of C++ on \<open>size_t\<close>: a zero divisor is undefined behaviour, which
  the model reports as a fault instead of HOL's \<open>a mod 0 = a\<close>.
\<close>

datatype fault = Division_by_zero

definition size_mod :: "'a::len word \<Rightarrow> 'a word \<Rightarrow> fault + 'a word" where
  "size_mod a b = (if b = 0 then Inl Division_by_zero else Inr (a mod b))"

text \<open>\<open>void* allocate(size_t n, int flags = 0)\<close>, lines 91 to 98.\<close>

definition allocate ::
  "('a::len) word target \<Rightarrow> ('a word, 'h) libc \<Rightarrow> 'a word \<Rightarrow> int \<Rightarrow> ('a word, 'h) world
     \<Rightarrow> 'a word \<times> ('a word, 'h) world" where
  "allocate T L n flags s =
     (if EASTL_ALIGNED_MALLOC_AVAILABLE T \<and> EA_PLATFORM_MICROSOFT T
      then invoke L (Aligned_malloc n (EASTL_SYSTEM_ALLOCATOR_MIN_ALIGNMENT T)) s
      else invoke L (Malloc n) s)"

text \<open>
  \<open>void* allocate(size_t n, size_t alignment, size_t alignmentOffset, int flags = 0)\<close>,
  lines 100 to 115. After preprocessing the body is one of three texts.
  With aligned malloc on a Microsoft target the \<open>if\<close> governs only the first
  \<open>return\<close>; the \<open>else\<close> before the second is inside a comment, so the second
  \<open>return\<close> is the statement reached when the test fails, and the final
  \<open>return NULL\<close> is never reached:
  \<^verbatim>\<open>
    if((alignmentOffset % alignment) == 0)
        return _aligned_malloc(n, alignment);
    return _aligned_offset_malloc(n, alignment, alignmentOffset);
    return NULL;
  \<close>
  With aligned malloc on any other target:
  \<^verbatim>\<open>
    if((alignmentOffset % alignment) == 0)
        return memalign(alignment, n);
    return NULL;
  \<close>
  Without aligned malloc (\<open>&&\<close> evaluates its right operand only when the left holds):
  \<^verbatim>\<open>
    if((alignment <= EASTL_SYSTEM_ALLOCATOR_MIN_ALIGNMENT) && ((alignmentOffset % alignment) == 0))
        return malloc(n);
    return NULL;
  \<close>
\<close>

definition allocate_aligned ::
  "('a::len) word target \<Rightarrow> ('a word, 'h) libc \<Rightarrow> 'a word \<Rightarrow> 'a word \<Rightarrow> 'a word \<Rightarrow> int
     \<Rightarrow> ('a word, 'h) world \<Rightarrow> fault + ('a word \<times> ('a word, 'h) world)" where
  "allocate_aligned T L n alignment alignmentOffset flags s =
     (if EASTL_ALIGNED_MALLOC_AVAILABLE T then
        (case size_mod alignmentOffset alignment of
           Inl e \<Rightarrow> Inl e
         | Inr r \<Rightarrow>
             if r = 0 then
               (if EA_PLATFORM_MICROSOFT T
                then Inr (invoke L (Aligned_malloc n alignment) s)
                else Inr (invoke L (Memalign alignment n) s))
             else
               (if EA_PLATFORM_MICROSOFT T
                then Inr (invoke L (Aligned_offset_malloc n alignment alignmentOffset) s)
                else Inr (NULL, s)))
      else
        (if alignment \<le> EASTL_SYSTEM_ALLOCATOR_MIN_ALIGNMENT T then
           (case size_mod alignmentOffset alignment of
              Inl e \<Rightarrow> Inl e
            | Inr r \<Rightarrow>
                if r = 0 then Inr (invoke L (Malloc n) s) else Inr (NULL, s))
         else Inr (NULL, s)))"

text \<open>\<open>void deallocate(void* p, size_t n)\<close>, lines 117 to 124.\<close>

definition deallocate ::
  "('a::len) word target \<Rightarrow> ('a word, 'h) libc \<Rightarrow> 'a word \<Rightarrow> 'a word \<Rightarrow> ('a word, 'h) world
     \<Rightarrow> ('a word, 'h) world" where
  "deallocate T L p n s =
     (if EASTL_ALIGNED_MALLOC_AVAILABLE T \<and> EA_PLATFORM_MICROSOFT T
      then snd (invoke L (Aligned_free p) s)
      else snd (invoke L (Free p) s))"

section \<open>Requests, contracts and reference targets\<close>

text \<open>
  The request's \<open>alignment\<close> is required to be a power of two that fits \<open>size_t\<close>.
  The bounded quantifier keeps the predicate computable.
\<close>

definition power_of_two :: "'a::len word \<Rightarrow> bool" where
  "power_of_two a = (\<exists>k\<in>{..<LENGTH('a)}. a = 2 ^ k)"

text \<open>
  What the C library promises about the address of a block it returns, per primitive:
  \<open>malloc\<close> returns a block aligned to the minimum alignment of the system allocator,
  \<open>_aligned_malloc\<close> and \<open>memalign\<close> a block whose address is a multiple of the
  alignment passed, \<open>_aligned_offset_malloc\<close> a block whose address advanced by the
  offset is one. The additions are those of \<open>size_t\<close> and wrap. The promise is made
  for calls that pass a power of two as the alignment, which the aligned primitives
  require. The library is free to return \<open>NULL\<close> from any call; the contract
  constrains the other results only.
\<close>

fun call_well_formed :: "('a::len) word prim_call \<Rightarrow> bool" where
  "call_well_formed (Malloc n) = True"
| "call_well_formed (Aligned_malloc n a) = power_of_two a"
| "call_well_formed (Aligned_offset_malloc n a off) = power_of_two a"
| "call_well_formed (Memalign a n) = power_of_two a"
| "call_well_formed (Free q) = True"
| "call_well_formed (Aligned_free q) = True"

fun returns_aligned :: "('a::len) word target \<Rightarrow> 'a word prim_call \<Rightarrow> 'a word \<Rightarrow> bool" where
  "returns_aligned T (Malloc n) p = (p mod EASTL_SYSTEM_ALLOCATOR_MIN_ALIGNMENT T = 0)"
| "returns_aligned T (Aligned_malloc n a) p = (p mod a = 0)"
| "returns_aligned T (Aligned_offset_malloc n a off) p = ((p + off) mod a = 0)"
| "returns_aligned T (Memalign a n) p = (p mod a = 0)"
| "returns_aligned T (Free q) p = True"
| "returns_aligned T (Aligned_free q) p = True"

definition libc_contract :: "('a::len) word target \<Rightarrow> ('a word, 'h) libc \<Rightarrow> bool" where
  "libc_contract T L =
     (\<forall>c h. call_well_formed c \<and> fst (L c h) \<noteq> NULL \<longrightarrow>
            returns_aligned T c (fst (L c h)))"

text \<open>
  The release primitive the C library documents for a block, by the primitive that
  produced it: \<open>free\<close> for \<open>malloc\<close> and \<open>memalign\<close>, \<open>_aligned_free\<close> for
  \<open>_aligned_malloc\<close> and \<open>_aligned_offset_malloc\<close>.
\<close>

fun matching_free :: "'w prim_call \<Rightarrow> 'w \<Rightarrow> 'w prim_call option" where
  "matching_free (Malloc n) p = Some (Free p)"
| "matching_free (Memalign a n) p = Some (Free p)"
| "matching_free (Aligned_malloc n a) p = Some (Aligned_free p)"
| "matching_free (Aligned_offset_malloc n a off) p = Some (Aligned_free p)"
| "matching_free (Free q) p = None"
| "matching_free (Aligned_free q) p = None"

text \<open>
  The specification's dispatch rules 1 to 3, read as the conditions under which the
  primitives of a target can satisfy a request; rule 4 makes every other request fail.
  The aligned primitive with offset exists on Microsoft targets with aligned malloc.
  Rule 2 is read for every target that has the aligned primitive, with or without the
  one with offset: read for the targets without it only, no rule would cover a request
  with offset 0 on a Microsoft target.
\<close>

definition has_aligned_allocate :: "'w target \<Rightarrow> bool" where
  "has_aligned_allocate T = EASTL_ALIGNED_MALLOC_AVAILABLE T"

definition has_aligned_offset_allocate :: "'w target \<Rightarrow> bool" where
  "has_aligned_offset_allocate T =
     (EASTL_ALIGNED_MALLOC_AVAILABLE T \<and> EA_PLATFORM_MICROSOFT T)"

definition spec_satisfiable :: "('a::len) word target \<Rightarrow> 'a word \<Rightarrow> 'a word \<Rightarrow> bool" where
  "spec_satisfiable T alignment alignmentOffset =
     ((has_aligned_offset_allocate T \<and> alignmentOffset \<noteq> 0)
      \<or> (has_aligned_allocate T \<and> alignmentOffset mod alignment = 0)
      \<or> (\<not> has_aligned_allocate T
           \<and> alignment \<le> EASTL_SYSTEM_ALLOCATOR_MIN_ALIGNMENT T
           \<and> alignmentOffset mod alignment = 0))"

text \<open>
  Three 64-bit targets with minimum alignment 16, none with the macro predefined:
  a Microsoft one, a POSIX one that is not Apple, and an Apple one.
\<close>

definition windows64 :: "64 word target" where
  "windows64 = \<lparr>predefined_ALIGNED_MALLOC_AVAILABLE = None, EA_PLATFORM_POSIX = False,
     EA_PLATFORM_APPLE = False, EA_PLATFORM_MICROSOFT = True,
     EASTL_SYSTEM_ALLOCATOR_MIN_ALIGNMENT = 16\<rparr>"

definition linux64 :: "64 word target" where
  "linux64 = \<lparr>predefined_ALIGNED_MALLOC_AVAILABLE = None, EA_PLATFORM_POSIX = True,
     EA_PLATFORM_APPLE = False, EA_PLATFORM_MICROSOFT = False,
     EASTL_SYSTEM_ALLOCATOR_MIN_ALIGNMENT = 16\<rparr>"

definition macos64 :: "64 word target" where
  "macos64 = \<lparr>predefined_ALIGNED_MALLOC_AVAILABLE = None, EA_PLATFORM_POSIX = True,
     EA_PLATFORM_APPLE = True, EA_PLATFORM_MICROSOFT = False,
     EASTL_SYSTEM_ALLOCATOR_MIN_ALIGNMENT = 16\<rparr>"

text \<open>
  A small C library to run the adapter against: the heap state counts the live blocks,
  \<open>malloc\<close> answers with the address \<open>m\<close>, the aligned primitives with the alignment
  itself, and the one with offset with the alignment less the offset.
\<close>

fun test_libc :: "'a::len word \<Rightarrow> ('a word, nat) libc" where
  "test_libc m (Malloc n) h = (m, Suc h)"
| "test_libc m (Aligned_malloc n a) h = (a, Suc h)"
| "test_libc m (Aligned_offset_malloc n a off) h = (a - off, Suc h)"
| "test_libc m (Memalign a n) h = (a, Suc h)"
| "test_libc m (Free p) h = (NULL, h - 1)"
| "test_libc m (Aligned_free p) h = (NULL, h - 1)"

text \<open>A C library that has run out of memory: every call answers \<open>NULL\<close>.\<close>

definition exhausted_libc :: "('a::len word, nat) libc" where
  "exhausted_libc c h = (NULL, h)"

definition fresh :: "(64 word, nat) world" where
  "fresh = \<lparr>heap = 0, calls = []\<rparr>"

section \<open>Equality and the diagnostic name\<close>

lemma build_unit: "build x = Allocator_malloc"
  by (cases "build x") simp

text \<open>
  C8. Any two instances, however constructed and whatever \<open>set_name\<close> calls and
  assignments followed, compare equal: \<open>==\<close> returns true and \<open>!=\<close> returns false.
\<close>

theorem equality_constant_true:
  "op_eq (mutate (build x) ms) (mutate (build y) ns) = True
   \<and> op_ne (mutate (build x) ms) (mutate (build y) ns) = False"
  by (simp add: op_eq_def op_ne_def)

text \<open>
  C9. Whatever name was given at construction or copy construction and whatever
  \<open>set_name\<close> calls followed, \<open>get_name\<close> returns the fixed string
  \<open>allocator_malloc\<close>; in particular the constructors and \<open>set_name\<close> give the same
  instance for every name argument.
\<close>

theorem get_name_fixed:
  "get_name (mutate (build x) ms) = ''allocator_malloc''
   \<and> construct name = construct name'
   \<and> copy_construct_named a name = copy_construct_named a name'
   \<and> set_name a name = set_name a name'"
  by (simp add: get_name_def construct_def copy_construct_named_def set_name_def)

section \<open>Alignment of the blocks returned\<close>

lemma unat_pow2: "k < LENGTH('a) \<Longrightarrow> unat ((2::'a::len word) ^ k) = 2 ^ k"
  by (simp add: of_nat_inverse)

lemma nat_mod_add_wrap:
  fixes x y :: nat
  assumes "x mod 2 ^ k = 0" "y mod 2 ^ k = 0" "k \<le> n"
  shows "((x + y) mod 2 ^ n) mod 2 ^ k = 0"
proof -
  have "(2::nat) ^ k dvd 2 ^ n" using assms(3) by (rule le_imp_power_dvd)
  then have "((x + y) mod 2 ^ n) mod 2 ^ k = (x + y) mod 2 ^ k"
    by (rule mod_mod_cancel)
  also have "\<dots> = 0" using assms(1,2) by (simp add: mod_add_eq [symmetric]) 
  finally show ?thesis .
qed

lemma pow2_le_exp:
  assumes "k < LENGTH('a)" "j < LENGTH('a)" "(2::'a::len word) ^ k \<le> 2 ^ j"
  shows "k \<le> j"
proof -
  have "unat ((2::'a word) ^ k) \<le> unat ((2::'a word) ^ j)"
    using assms(3) by (simp add: word_le_nat_alt)
  then have "(2::nat) ^ k \<le> 2 ^ j" using assms(1,2) by (simp add: unat_pow2)
  then show ?thesis by simp
qed

lemma mod_pow2_add:
  fixes p off :: "'a::len word"
  assumes "k < LENGTH('a)" "p mod 2 ^ k = 0" "off mod 2 ^ k = 0"
  shows "(p + off) mod 2 ^ k = 0"
proof -
  have p: "unat p mod 2 ^ k = 0"
    using assms(1,2) unat_mod [of p "2 ^ k"] by (simp add: unat_pow2)
  have off: "unat off mod 2 ^ k = 0"
    using assms(1,3) unat_mod [of off "2 ^ k"] by (simp add: unat_pow2)
  have "unat ((p + off) mod 2 ^ k) = ((unat p + unat off) mod 2 ^ LENGTH('a)) mod 2 ^ k"
    using assms(1) by (simp add: unat_mod unat_pow2 unat_word_ariths)
  also have "\<dots> = 0" using p off assms(1) by (intro nat_mod_add_wrap) simp_all
  finally show ?thesis by (simp add: unat_eq_0)
qed

lemma mod_pow2_le:
  fixes p :: "'a::len word"
  assumes "p mod 2 ^ j = 0" "k \<le> j"
  shows "p mod 2 ^ k = 0"
proof -
  have "take_bit k p = take_bit k (take_bit j p)"
    using assms(2) by (simp add: min_def)
  also have "\<dots> = 0" using assms(1) by (simp add: take_bit_eq_mod)
  finally show ?thesis by (simp add: take_bit_eq_mod)
qed

lemma power_of_two_nonzero: "power_of_two a \<Longrightarrow> a \<noteq> 0"
  by (auto simp: power_of_two_def)

lemma aligned_at_multiple:
  fixes p off a :: "'a::len word"
  assumes "power_of_two a" "p mod a = 0" "off mod a = 0"
  shows "(p + off) mod a = 0"
proof -
  from assms(1) obtain k where k: "k < LENGTH('a)" "a = 2 ^ k"
    by (auto simp: power_of_two_def)
  show ?thesis using assms(2,3) k(1) unfolding k(2) by (rule mod_pow2_add [rotated])
qed

lemma aligned_to_smaller:
  fixes p a m :: "'a::len word"
  assumes "power_of_two a" "power_of_two m" "a \<le> m" "p mod m = 0"
  shows "p mod a = 0"
proof -
  from assms(1) obtain k where k: "k < LENGTH('a)" "a = 2 ^ k"
    by (auto simp: power_of_two_def)
  from assms(2) obtain j where j: "j < LENGTH('a)" "m = 2 ^ j"
    by (auto simp: power_of_two_def)
  have "k \<le> j" using k(1) j(1) assms(3) unfolding k(2) j(2) by (rule pow2_le_exp)
  with assms(4) show ?thesis unfolding k(2) j(2) by (rule mod_pow2_le)
qed

lemma invoke_result: "invoke L c s = (p, s') \<Longrightarrow> p = fst (L c (heap s))"
  by (auto simp: invoke_def split: prod.splits)

lemma invoke_calls: "calls (snd (invoke L c s)) = calls s @ [c]"
  by (simp add: invoke_def split: prod.splits)

lemma invoke_heap: "heap (snd (invoke L c s)) = snd (L c (heap s))"
  by (simp add: invoke_def split: prod.splits)

lemma invoke_fst: "fst (invoke L c s) = fst (L c (heap s))"
  by (simp add: invoke_def split: prod.splits)

lemma contract_at_call:
  assumes "libc_contract T L" "call_well_formed c" "invoke L c s = (p, s')" "p \<noteq> NULL"
  shows "returns_aligned T c p"
  using assms invoke_result [OF assms(3)] by (simp add: libc_contract_def)

lemma allocate_aligned_nonzero:
  "alignment \<noteq> 0 \<Longrightarrow>
   allocate_aligned T L n alignment alignmentOffset flags s =
     (if EASTL_ALIGNED_MALLOC_AVAILABLE T then
        (if alignmentOffset mod alignment = 0 then
           (if EA_PLATFORM_MICROSOFT T
            then Inr (invoke L (Aligned_malloc n alignment) s)
            else Inr (invoke L (Memalign alignment n) s))
         else
           (if EA_PLATFORM_MICROSOFT T
            then Inr (invoke L (Aligned_offset_malloc n alignment alignmentOffset) s)
            else Inr (NULL, s)))
      else
        (if alignment \<le> EASTL_SYSTEM_ALLOCATOR_MIN_ALIGNMENT T \<and> alignmentOffset mod alignment = 0
         then Inr (invoke L (Malloc n) s)
         else Inr (NULL, s)))"
  by (simp add: allocate_aligned_def size_mod_def)


text \<open>
  C1. On every target, for a C library that keeps its alignment promises and a minimum
  alignment that is a power of two: when \<open>allocate(n, alignment, alignmentOffset, flags)\<close>
  is called with \<open>alignment\<close> a power of two and returns a block other than \<open>NULL\<close>,
  the block's address advanced by \<open>alignmentOffset\<close> is a multiple of \<open>alignment\<close>.
\<close>

theorem allocate_aligned_meets_request:
  assumes "libc_contract T L"
    and "power_of_two (EASTL_SYSTEM_ALLOCATOR_MIN_ALIGNMENT T)"
    and "power_of_two alignment"
    and "allocate_aligned T L n alignment alignmentOffset flags s = Inr (p, s')"
    and "p \<noteq> NULL"
  shows "(p + alignmentOffset) mod alignment = 0"
proof -
  have nz: "alignment \<noteq> 0" using assms(3) by (rule power_of_two_nonzero)
  have wf: "call_well_formed (Aligned_malloc n alignment)"
    "call_well_formed (Aligned_offset_malloc n alignment alignmentOffset)"
    "call_well_formed (Memalign alignment n)"
    "call_well_formed (Malloc n)"
    using assms(3) by simp_all
  note run = assms(4) [unfolded allocate_aligned_nonzero [OF nz]]
  show ?thesis
  proof (cases "EASTL_ALIGNED_MALLOC_AVAILABLE T")
    case True
    show ?thesis
    proof (cases "alignmentOffset mod alignment = 0")
      case mult: True
      have "p mod alignment = 0"
      proof (cases "EA_PLATFORM_MICROSOFT T")
        case ms: True
        have "invoke L (Aligned_malloc n alignment) s = (p, s')"
          using run True mult ms by simp
        with assms(1) wf(1) have "returns_aligned T (Aligned_malloc n alignment) p"
          using assms(5) by (rule contract_at_call)
        then show ?thesis by simp
      next
        case ms: False
        have "invoke L (Memalign alignment n) s = (p, s')"
          using run True mult ms by simp
        with assms(1) wf(3) have "returns_aligned T (Memalign alignment n) p"
          using assms(5) by (rule contract_at_call)
        then show ?thesis by simp
      qed
      with assms(3) show ?thesis using mult by (rule aligned_at_multiple)
    next
      case False
      have "invoke L (Aligned_offset_malloc n alignment alignmentOffset) s = (p, s')"
        using run True False assms(5) by (cases "EA_PLATFORM_MICROSOFT T") simp_all
      with assms(1) wf(2)
      have "returns_aligned T (Aligned_offset_malloc n alignment alignmentOffset) p"
        using assms(5) by (rule contract_at_call)
      then show ?thesis by simp
    qed
  next
    case False
    have cond: "alignment \<le> EASTL_SYSTEM_ALLOCATOR_MIN_ALIGNMENT T \<and> alignmentOffset mod alignment = 0"
      using run False assms(5) by (simp split: if_splits)
    then have "invoke L (Malloc n) s = (p, s')"
      using run False by simp
    with assms(1) wf(4) have "returns_aligned T (Malloc n) p"
      using assms(5) by (rule contract_at_call)
    then have "p mod EASTL_SYSTEM_ALLOCATOR_MIN_ALIGNMENT T = 0" by simp
    with assms(3,2) conjunct1 [OF cond] have "p mod alignment = 0"
      by (rule aligned_to_smaller)
    with assms(3) show ?thesis using conjunct2 [OF cond] by (rule aligned_at_multiple)
  qed
qed

lemma test_libc_contract:
  "libc_contract T (test_libc (EASTL_SYSTEM_ALLOCATOR_MIN_ALIGNMENT T))"
  unfolding libc_contract_def
proof (intro allI impI)
  fix c :: "'a word prim_call" and h :: nat
  show "returns_aligned T c (fst (test_libc (EASTL_SYSTEM_ALLOCATOR_MIN_ALIGNMENT T) c h))"
    by (cases c) simp_all
qed

lemma power_of_two_8: "power_of_two (8 :: 64 word)"
  unfolding power_of_two_def by (rule bexI [of _ 3]) simp_all

lemma power_of_two_16: "power_of_two (16 :: 64 word)"
  unfolding power_of_two_def by (rule bexI [of _ 4]) simp_all

lemma power_of_two_64: "power_of_two (64 :: 64 word)"
  unfolding power_of_two_def by (rule bexI [of _ 6]) simp_all


theorem allocate_aligned_meets_request_witness:
  "allocate_aligned windows64 (test_libc 16) 100 8 3 0 fresh
     = Inr (5, \<lparr>heap = 1, calls = [Aligned_offset_malloc 100 8 3]\<rparr>)
   \<and> ((5::64 word) + 3) mod 8 = 0"
proof -
  have run: "allocate_aligned windows64 (test_libc 16) 100 8 3 0 fresh
     = Inr (5, \<lparr>heap = 1, calls = [Aligned_offset_malloc 100 8 3]\<rparr>)"
    by (simp add: allocate_aligned_def size_mod_def EASTL_ALIGNED_MALLOC_AVAILABLE_def
        windows64_def invoke_def fresh_def)
  have c: "libc_contract windows64 (test_libc 16)"
    using test_libc_contract [of windows64] by (simp add: windows64_def)
  have m: "power_of_two (EASTL_SYSTEM_ALLOCATOR_MIN_ALIGNMENT windows64)"
    using power_of_two_16 by (simp add: windows64_def)
  have "((5::64 word) + 3) mod 8 = 0"
    using allocate_aligned_meets_request [OF c m power_of_two_8 run] by (simp add: NULL_def)
  with run show ?thesis by simp
qed


lemma invoke_changes_world: "invoke L c s \<noteq> (p, s)"
proof
  assume "invoke L c s = (p, s)"
  then have "calls (snd (invoke L c s)) = calls s" by simp
  then show False by (simp add: invoke_calls)
qed

lemma available_unless_apple:
  "predefined_ALIGNED_MALLOC_AVAILABLE T = None \<Longrightarrow>
   EASTL_ALIGNED_MALLOC_AVAILABLE T =
     ((EA_PLATFORM_POSIX T \<and> \<not> EA_PLATFORM_APPLE T) \<or> EA_PLATFORM_MICROSOFT T)"
  by (simp add: EASTL_ALIGNED_MALLOC_AVAILABLE_def)

lemma targets_available:
  "EASTL_ALIGNED_MALLOC_AVAILABLE windows64"
  "EASTL_ALIGNED_MALLOC_AVAILABLE linux64"
  "\<not> EASTL_ALIGNED_MALLOC_AVAILABLE macos64"
  by (simp_all add: EASTL_ALIGNED_MALLOC_AVAILABLE_def windows64_def linux64_def macos64_def)

lemma targets_microsoft:
  "EA_PLATFORM_MICROSOFT windows64"
  "\<not> EA_PLATFORM_MICROSOFT linux64"
  "\<not> EA_PLATFORM_MICROSOFT macos64"
  by (simp_all add: windows64_def linux64_def macos64_def)

lemma targets_min_alignment:
  "EASTL_SYSTEM_ALLOCATOR_MIN_ALIGNMENT windows64 = 16"
  "EASTL_SYSTEM_ALLOCATOR_MIN_ALIGNMENT linux64 = 16"
  "EASTL_SYSTEM_ALLOCATOR_MIN_ALIGNMENT macos64 = 16"
  by (simp_all add: windows64_def linux64_def macos64_def)

section \<open>Which primitive a request reaches\<close>

text \<open>
  C2, as stated, fails on the Microsoft target: a request with alignment 8 and the
  non-zero offset 8 reaches \<open>_aligned_malloc\<close>, not \<open>_aligned_offset_malloc\<close>.
\<close>

theorem offset_primitive_counterexample:
  "has_aligned_offset_allocate windows64 \<and> (8::64 word) \<noteq> 0
   \<and> allocate_aligned windows64 (test_libc 16) 100 8 8 0 fresh
       \<noteq> Inr (invoke (test_libc 16) (Aligned_offset_malloc 100 8 8) fresh)
   \<and> allocate_aligned windows64 (test_libc 16) 100 8 8 0 fresh
       = Inr (8, \<lparr>heap = 1, calls = [Aligned_malloc 100 8]\<rparr>)"
  by (simp add: has_aligned_offset_allocate_def targets_available targets_microsoft
      allocate_aligned_nonzero invoke_def fresh_def)

text \<open>
  C2, amended. On a target with the aligned primitive with offset (Microsoft, aligned
  malloc available), a request whose offset is not a multiple of the alignment is passed
  to \<open>_aligned_offset_malloc\<close> with the requested size, alignment and offset; a request
  whose offset is a multiple of the alignment, zero or not, is passed to
  \<open>_aligned_malloc\<close> with the requested size and alignment.
\<close>

theorem microsoft_dispatch:
  assumes "has_aligned_offset_allocate T" and "alignment \<noteq> 0"
  shows "(alignmentOffset mod alignment \<noteq> 0 \<longrightarrow>
            allocate_aligned T L n alignment alignmentOffset flags s
              = Inr (invoke L (Aligned_offset_malloc n alignment alignmentOffset) s))
       \<and> (alignmentOffset mod alignment = 0 \<longrightarrow>
            allocate_aligned T L n alignment alignmentOffset flags s
              = Inr (invoke L (Aligned_malloc n alignment) s))"
  using assms by (simp add: has_aligned_offset_allocate_def allocate_aligned_nonzero)

theorem microsoft_dispatch_witness:
  "allocate_aligned windows64 (test_libc 16) 100 8 3 0 fresh
     = Inr (5, \<lparr>heap = 1, calls = [Aligned_offset_malloc 100 8 3]\<rparr>)
   \<and> allocate_aligned windows64 (test_libc 16) 100 8 16 0 fresh
     = Inr (8, \<lparr>heap = 1, calls = [Aligned_malloc 100 8]\<rparr>)"
proof -
  have h: "has_aligned_offset_allocate windows64"
    by (simp add: has_aligned_offset_allocate_def targets_available targets_microsoft)
  have nz: "(8::64 word) \<noteq> 0" by simp
  show ?thesis
    using microsoft_dispatch [OF h nz, of 3 "test_libc 16" 100 0 fresh]
      microsoft_dispatch [OF h nz, of 16 "test_libc 16" 100 0 fresh]
    by (simp add: invoke_def fresh_def)
qed

text \<open>
  C3, as stated, fails on the POSIX target: aligned malloc is available there, and the
  single-argument \<open>allocate\<close> calls \<open>malloc\<close>.
\<close>

theorem allocate_min_alignment_counterexample:
  "has_aligned_allocate linux64
   \<and> allocate linux64 (test_libc 16) 100 0 fresh
       \<noteq> invoke (test_libc 16)
            (Aligned_malloc 100 (EASTL_SYSTEM_ALLOCATOR_MIN_ALIGNMENT linux64)) fresh
   \<and> allocate linux64 (test_libc 16) 100 0 fresh
       = (16, \<lparr>heap = 1, calls = [Malloc 100]\<rparr>)"
  by (simp add: has_aligned_allocate_def targets_available targets_microsoft
      targets_min_alignment allocate_def invoke_def fresh_def)

text \<open>
  C3, amended. The single-argument \<open>allocate\<close> calls \<open>_aligned_malloc\<close> with the
  minimum alignment on the targets that have aligned malloc and are Microsoft ones, and
  \<open>malloc\<close> with the requested size on every other target, those with \<open>memalign\<close>
  included; where the availability macro is not predefined the choice is by
  \<open>EA_PLATFORM_MICROSOFT\<close> alone.
\<close>

theorem allocate_dispatch:
  "(has_aligned_allocate T \<and> EA_PLATFORM_MICROSOFT T \<longrightarrow>
      allocate T L n flags s
        = invoke L (Aligned_malloc n (EASTL_SYSTEM_ALLOCATOR_MIN_ALIGNMENT T)) s)
   \<and> (\<not> (has_aligned_allocate T \<and> EA_PLATFORM_MICROSOFT T) \<longrightarrow>
      allocate T L n flags s = invoke L (Malloc n) s)
   \<and> (predefined_ALIGNED_MALLOC_AVAILABLE T = None \<longrightarrow>
      calls (snd (allocate T L n flags s))
        = calls s @ [if EA_PLATFORM_MICROSOFT T
                     then Aligned_malloc n (EASTL_SYSTEM_ALLOCATOR_MIN_ALIGNMENT T)
                     else Malloc n])"
  by (simp add: has_aligned_allocate_def allocate_def invoke_calls available_unless_apple)

theorem allocate_dispatch_witness:
  "allocate windows64 (test_libc 16) 100 0 fresh
     = (16, \<lparr>heap = 1, calls = [Aligned_malloc 100 16]\<rparr>)
   \<and> allocate linux64 (test_libc 16) 100 0 fresh = (16, \<lparr>heap = 1, calls = [Malloc 100]\<rparr>)
   \<and> allocate macos64 (test_libc 16) 100 0 fresh = (16, \<lparr>heap = 1, calls = [Malloc 100]\<rparr>)"
  using allocate_dispatch [of windows64 "test_libc 16" 100 0 fresh]
    allocate_dispatch [of linux64 "test_libc 16" 100 0 fresh]
    allocate_dispatch [of macos64 "test_libc 16" 100 0 fresh]
  by (simp add: has_aligned_allocate_def targets_available targets_microsoft
      targets_min_alignment invoke_def fresh_def)


section \<open>Targets without aligned malloc\<close>

text \<open>
  C4. On a target without aligned malloc, for a non-zero \<open>alignment\<close>: the request is
  passed to \<open>malloc\<close> exactly when \<open>alignment\<close> is at most the minimum alignment and
  \<open>alignmentOffset % alignment\<close> is 0, and \<open>allocate\<close> returns \<open>NULL\<close> with no
  primitive called exactly when that condition fails. In particular, on the Apple target
  (no aligned malloc, minimum alignment 16) \<open>allocate(n, 64, 3)\<close> returns \<open>NULL\<close>.
\<close>

theorem plain_only_dispatch:
  assumes "\<not> has_aligned_allocate T" and "alignment \<noteq> 0"
  shows "((allocate_aligned T L n alignment alignmentOffset flags s
             = Inr (invoke L (Malloc n) s))
          = (alignment \<le> EASTL_SYSTEM_ALLOCATOR_MIN_ALIGNMENT T
             \<and> alignmentOffset mod alignment = 0))
       \<and> ((allocate_aligned T L n alignment alignmentOffset flags s = Inr (NULL, s))
          = (\<not> (alignment \<le> EASTL_SYSTEM_ALLOCATOR_MIN_ALIGNMENT T
                \<and> alignmentOffset mod alignment = 0)))
       \<and> (allocate_aligned macos64 L' n' 64 3 flags' s' = Inr (NULL, s'))"
proof -
  have off: "\<not> EASTL_ALIGNED_MALLOC_AVAILABLE T"
    using assms(1) by (simp add: has_aligned_allocate_def)
  have run: "allocate_aligned T L n alignment alignmentOffset flags s =
      (if alignment \<le> EASTL_SYSTEM_ALLOCATOR_MIN_ALIGNMENT T \<and> alignmentOffset mod alignment = 0
       then Inr (invoke L (Malloc n) s) else Inr (NULL, s))"
    using off by (simp add: allocate_aligned_nonzero [OF assms(2)])
  have one: "(allocate_aligned T L n alignment alignmentOffset flags s
             = Inr (invoke L (Malloc n) s))
          = (alignment \<le> EASTL_SYSTEM_ALLOCATOR_MIN_ALIGNMENT T
             \<and> alignmentOffset mod alignment = 0)"
    unfolding run using invoke_changes_world [of L "Malloc n" s NULL] by (simp del: mod_eq_0_iff_dvd)
  have two: "(allocate_aligned T L n alignment alignmentOffset flags s = Inr (NULL, s))
          = (\<not> (alignment \<le> EASTL_SYSTEM_ALLOCATOR_MIN_ALIGNMENT T
                \<and> alignmentOffset mod alignment = 0))"
    unfolding run using invoke_changes_world [of L "Malloc n" s NULL] by (simp del: mod_eq_0_iff_dvd)
  have three: "allocate_aligned macos64 L' n' 64 3 flags' s' = Inr (NULL, s')"
    by (simp add: allocate_aligned_def targets_available targets_min_alignment)
  from one two three show ?thesis by (intro conjI)
qed

theorem plain_only_dispatch_witness:
  "allocate_aligned macos64 (test_libc 16) 100 64 3 0 fresh = Inr (NULL, fresh)
   \<and> allocate_aligned macos64 (test_libc 16) 100 8 3 0 fresh = Inr (NULL, fresh)
   \<and> allocate_aligned macos64 (test_libc 16) 100 8 16 0 fresh
       = Inr (16, \<lparr>heap = 1, calls = [Malloc 100]\<rparr>)"
proof -
  have h: "\<not> has_aligned_allocate macos64"
    by (simp add: has_aligned_allocate_def targets_available)
  have a: "allocate_aligned macos64 (test_libc 16) 100 64 3 0 fresh = Inr (NULL, fresh)"
    using plain_only_dispatch [OF h, of 64 "test_libc 16" 100 3 0 fresh "test_libc 16" 100 0 fresh]
    by (simp add: targets_min_alignment)
  have b: "allocate_aligned macos64 (test_libc 16) 100 8 3 0 fresh = Inr (NULL, fresh)"
    using plain_only_dispatch [OF h, of 8 "test_libc 16" 100 3 0 fresh "test_libc 16" 100 0 fresh]
    by (simp add: targets_min_alignment)
  have c: "allocate_aligned macos64 (test_libc 16) 100 8 16 0 fresh
       = Inr (16, \<lparr>heap = 1, calls = [Malloc 100]\<rparr>)"
    using plain_only_dispatch [OF h, of 8 "test_libc 16" 100 16 0 fresh "test_libc 16" 100 0 fresh]
    by (simp add: targets_min_alignment invoke_def fresh_def)
  from a b c show ?thesis by (intro conjI)
qed

section \<open>Targets with memalign\<close>

lemma memalign_block_aligned:
  fixes L :: "('a::len word, 'h) libc"
  assumes "power_of_two a"
  shows "libc_contract T L \<and> fst (invoke L (Memalign a n) s) \<noteq> NULL \<longrightarrow>
           fst (invoke L (Memalign a n) s) mod a = 0"
proof
  assume c: "libc_contract T L \<and> fst (invoke L (Memalign a n) s) \<noteq> NULL"
  have e: "invoke L (Memalign a n) s
      = (fst (invoke L (Memalign a n) s), snd (invoke L (Memalign a n) s))" by simp
  have wf: "call_well_formed (Memalign a n)" using assms by simp
  have "returns_aligned T (Memalign a n) (fst (invoke L (Memalign a n) s))"
    using conjunct1 [OF c] wf e conjunct2 [OF c] by (rule contract_at_call)
  then show "fst (invoke L (Memalign a n) s) mod a = 0" by simp
qed

text \<open>
  C6. On a target with aligned malloc and without the primitive with offset, a request
  with a non-zero \<open>alignment\<close> and \<open>alignmentOffset % alignment = 0\<close> is passed to
  \<open>memalign\<close> with the requested alignment and size; the result is that of the same
  request with offset 0; and when \<open>alignment\<close> is a power of two and the C library
  keeps its promise and returns a block, the block's address is a multiple of
  \<open>alignment\<close>. In particular, on the 64-bit POSIX
  target \<open>allocate(n, 8, 8)\<close> calls \<open>memalign(8, n)\<close> and a block it returns is
  aligned to 8 bytes.
\<close>

theorem memalign_dispatch:
  assumes "has_aligned_allocate T" and "\<not> has_aligned_offset_allocate T"
    and "alignment \<noteq> 0" and "alignmentOffset mod alignment = 0"
  shows "allocate_aligned T L n alignment alignmentOffset flags s
           = Inr (invoke L (Memalign alignment n) s)
       \<and> allocate_aligned T L n alignment alignmentOffset flags s
           = allocate_aligned T L n alignment 0 flags s
       \<and> (power_of_two alignment \<longrightarrow>
            libc_contract T L \<and> fst (invoke L (Memalign alignment n) s) \<noteq> NULL \<longrightarrow>
            fst (invoke L (Memalign alignment n) s) mod alignment = 0)
       \<and> allocate_aligned linux64 L' n' 8 8 flags' s' = Inr (invoke L' (Memalign 8 n') s')
       \<and> (libc_contract linux64 L' \<and> fst (invoke L' (Memalign 8 n') s') \<noteq> NULL \<longrightarrow>
            fst (invoke L' (Memalign 8 n') s') mod 8 = 0)"
proof -
  have av: "EASTL_ALIGNED_MALLOC_AVAILABLE T" and ms: "\<not> EA_PLATFORM_MICROSOFT T"
    using assms(1,2) by (simp_all add: has_aligned_allocate_def has_aligned_offset_allocate_def)
  have one: "allocate_aligned T L n alignment alignmentOffset flags s
           = Inr (invoke L (Memalign alignment n) s)"
    using av ms assms(4) by (simp add: allocate_aligned_nonzero [OF assms(3)] del: mod_eq_0_iff_dvd)
  have "allocate_aligned T L n alignment 0 flags s = Inr (invoke L (Memalign alignment n) s)"
    using av ms by (simp add: allocate_aligned_nonzero [OF assms(3)])
  with one have two: "allocate_aligned T L n alignment alignmentOffset flags s
           = allocate_aligned T L n alignment 0 flags s" by simp
  have four: "allocate_aligned linux64 L' n' 8 8 flags' s' = Inr (invoke L' (Memalign 8 n') s')"
    by (simp add: allocate_aligned_def size_mod_def targets_available targets_microsoft)
  have three: "power_of_two alignment \<longrightarrow>
      libc_contract T L \<and> fst (invoke L (Memalign alignment n) s) \<noteq> NULL \<longrightarrow>
      fst (invoke L (Memalign alignment n) s) mod alignment = 0"
    using memalign_block_aligned [of alignment T L n s] by simp
  from one two three four memalign_block_aligned [OF power_of_two_8, of linux64 L' n' s']
  show ?thesis by (intro conjI)
qed

theorem memalign_dispatch_witness:
  "allocate_aligned linux64 (test_libc 16) 100 8 8 0 fresh
     = Inr (8, \<lparr>heap = 1, calls = [Memalign 8 100]\<rparr>)
   \<and> (8::64 word) mod 8 = 0"
proof -
  have h: "has_aligned_allocate linux64" "\<not> has_aligned_offset_allocate linux64"
    by (simp_all add: has_aligned_allocate_def has_aligned_offset_allocate_def
        targets_available targets_microsoft)
  have nz: "(8::64 word) \<noteq> 0" by simp
  have m: "(8::64 word) mod 8 = 0" by simp
  have c: "libc_contract linux64 (test_libc 16)"
    using test_libc_contract [of linux64] by (simp add: targets_min_alignment)
  note t = memalign_dispatch [OF h nz m, of "test_libc 16" 100 0 fresh "test_libc 16" 100 0 fresh]
  have r: "invoke (test_libc 16) (Memalign 8 100) fresh
      = (8::64 word, \<lparr>heap = 1, calls = [Memalign 8 100]\<rparr>)"
    by (simp add: invoke_def fresh_def)
  have "allocate_aligned linux64 (test_libc 16) 100 8 8 0 fresh
     = Inr (8, \<lparr>heap = 1, calls = [Memalign 8 100]\<rparr>)"
    using t r by simp
  moreover have "(8::64 word) mod 8 = 0"
    using t c r power_of_two_8 by (simp add: NULL_def)
  ultimately show ?thesis by (intro conjI)
qed

section \<open>Totality\<close>

lemma division_by_zero_is_a_fault:
  "EASTL_ALIGNED_MALLOC_AVAILABLE T \<Longrightarrow>
   allocate_aligned T L n 0 alignmentOffset flags s = Inl Division_by_zero"
  "\<not> EASTL_ALIGNED_MALLOC_AVAILABLE T \<Longrightarrow>
   allocate_aligned T L n 0 alignmentOffset flags s = Inl Division_by_zero"
  by (simp_all add: allocate_aligned_def size_mod_def)

text \<open>
  C10. When \<open>alignment\<close> is a power of two, \<open>alignmentOffset % alignment\<close> is computed
  without a division by zero, and \<open>allocate(n, alignment, alignmentOffset)\<close> returns:
  either \<open>NULL\<close> with no primitive called, or the result of one call of \<open>malloc\<close>,
  \<open>_aligned_malloc\<close>, \<open>memalign\<close> or \<open>_aligned_offset_malloc\<close>.
\<close>

theorem allocate_aligned_total:
  assumes "power_of_two alignment"
  shows "size_mod alignmentOffset alignment = Inr (alignmentOffset mod alignment)
       \<and> (allocate_aligned T L n alignment alignmentOffset flags s = Inr (NULL, s)
          \<or> (\<exists>c\<in>set [Malloc n, Aligned_malloc n alignment, Memalign alignment n,
                       Aligned_offset_malloc n alignment alignmentOffset].
                allocate_aligned T L n alignment alignmentOffset flags s = Inr (invoke L c s)))"
proof -
  have nz: "alignment \<noteq> 0" using assms by (rule power_of_two_nonzero)
  then have one: "size_mod alignmentOffset alignment = Inr (alignmentOffset mod alignment)"
    by (simp add: size_mod_def)
  have two: "allocate_aligned T L n alignment alignmentOffset flags s = Inr (NULL, s)
          \<or> (\<exists>c\<in>set [Malloc n, Aligned_malloc n alignment, Memalign alignment n,
                       Aligned_offset_malloc n alignment alignmentOffset].
                allocate_aligned T L n alignment alignmentOffset flags s = Inr (invoke L c s))"
    by (simp add: allocate_aligned_nonzero [OF nz] del: mod_eq_0_iff_dvd)
  from one two show ?thesis by (intro conjI)
qed

theorem allocate_aligned_total_witness:
  "size_mod (3::64 word) 8 = Inr 3
   \<and> allocate_aligned linux64 (test_libc 16) 100 8 3 0 fresh = Inr (NULL, fresh)"
proof -
  note t = allocate_aligned_total [OF power_of_two_8, of 3 linux64 "test_libc 16" 100 0 fresh]
  have one: "size_mod (3::64 word) 8 = Inr 3" using t by simp
  have "allocate_aligned linux64 (test_libc 16) 100 8 3 0 fresh \<noteq> Inr (invoke (test_libc 16) c fresh)"
    for c
    by (simp add: allocate_aligned_def size_mod_def targets_available targets_microsoft
        invoke_changes_world [symmetric])
  with t have two: "allocate_aligned linux64 (test_libc 16) 100 8 3 0 fresh = Inr (NULL, fresh)"
    by simp
  from one two show ?thesis by (intro conjI)
qed

section \<open>Requests that cannot be satisfied\<close>

lemma nonzero_remainder_nonzero:
  fixes a b :: "'a::len word"
  shows "a mod b \<noteq> 0 \<Longrightarrow> a \<noteq> 0"
  by (cases "a = 0") simp_all

lemma spec_satisfiable_code:
  assumes "alignment \<noteq> 0"
  shows "spec_satisfiable T alignment alignmentOffset =
     (if EASTL_ALIGNED_MALLOC_AVAILABLE T
      then EA_PLATFORM_MICROSOFT T \<or> alignmentOffset mod alignment = 0
      else alignment \<le> EASTL_SYSTEM_ALLOCATOR_MIN_ALIGNMENT T
           \<and> alignmentOffset mod alignment = 0)"
proof (cases "alignmentOffset mod alignment = 0")
  case True
  then show ?thesis
    by (simp add: spec_satisfiable_def has_aligned_allocate_def has_aligned_offset_allocate_def
        del: mod_eq_0_iff_dvd)
next
  case False
  then have "alignmentOffset \<noteq> 0" by (rule nonzero_remainder_nonzero)
  with False show ?thesis
    by (simp add: spec_satisfiable_def has_aligned_allocate_def has_aligned_offset_allocate_def
        del: mod_eq_0_iff_dvd)
qed

lemma invoke_null:
  "fst (L c (heap s)) = NULL \<Longrightarrow> invoke L c s = (NULL, snd (invoke L c s))"
  by (cases "L c (heap s)") (simp add: invoke_def)

text \<open>
  C5. For a non-zero \<open>alignment\<close>: a request that the target's primitives cannot
  satisfy under the dispatch rules returns \<open>NULL\<close> and leaves the world as it was, no
  primitive having been called. Every other request makes exactly one primitive call, with
  the requested alignment (or \<open>malloc\<close>, only when the alignment is at most the
  minimum), and returns what the primitive returned; when the primitive answers
  \<open>NULL\<close>, so does \<open>allocate\<close>. No request ends in a fault.
\<close>

theorem unsatisfiable_returns_null:
  assumes "alignment \<noteq> 0"
  shows "(\<not> spec_satisfiable T alignment alignmentOffset \<longrightarrow>
            allocate_aligned T L n alignment alignmentOffset flags s = Inr (NULL, s))
       \<and> (spec_satisfiable T alignment alignmentOffset \<longrightarrow>
            (\<exists>c\<in>set ([Aligned_malloc n alignment, Memalign alignment n,
                         Aligned_offset_malloc n alignment alignmentOffset]
                        @ (if alignment \<le> EASTL_SYSTEM_ALLOCATOR_MIN_ALIGNMENT T
                           then [Malloc n] else [])).
               allocate_aligned T L n alignment alignmentOffset flags s = Inr (invoke L c s)
               \<and> (fst (L c (heap s)) = NULL \<longrightarrow>
                    allocate_aligned T L n alignment alignmentOffset flags s
                      = Inr (NULL, snd (invoke L c s)))))"
proof (intro conjI impI)
  assume unsat: "\<not> spec_satisfiable T alignment alignmentOffset"
  show "allocate_aligned T L n alignment alignmentOffset flags s = Inr (NULL, s)"
  proof (cases "EASTL_ALIGNED_MALLOC_AVAILABLE T")
    case True
    with unsat have "\<not> EA_PLATFORM_MICROSOFT T \<and> alignmentOffset mod alignment \<noteq> 0"
      by (simp add: spec_satisfiable_code [OF assms] del: mod_eq_0_iff_dvd)
    with True show ?thesis
      by (simp add: allocate_aligned_nonzero [OF assms] del: mod_eq_0_iff_dvd)
  next
    case False
    with unsat have "\<not> (alignment \<le> EASTL_SYSTEM_ALLOCATOR_MIN_ALIGNMENT T
        \<and> alignmentOffset mod alignment = 0)"
      by (simp add: spec_satisfiable_code [OF assms] del: mod_eq_0_iff_dvd)
    with False show ?thesis
      by (auto simp add: allocate_aligned_nonzero [OF assms] simp del: mod_eq_0_iff_dvd)
  qed
next
  let ?cs = "[Aligned_malloc n alignment, Memalign alignment n,
              Aligned_offset_malloc n alignment alignmentOffset]
             @ (if alignment \<le> EASTL_SYSTEM_ALLOCATOR_MIN_ALIGNMENT T then [Malloc n] else [])"
  assume sat: "spec_satisfiable T alignment alignmentOffset"
  have "\<exists>c\<in>set ?cs.
      allocate_aligned T L n alignment alignmentOffset flags s = Inr (invoke L c s)"
  proof (cases "EASTL_ALIGNED_MALLOC_AVAILABLE T")
    case True
    with sat have "EA_PLATFORM_MICROSOFT T \<or> alignmentOffset mod alignment = 0"
      by (simp add: spec_satisfiable_code [OF assms] del: mod_eq_0_iff_dvd)
    with True show ?thesis
      by (cases "alignmentOffset mod alignment = 0"; cases "EA_PLATFORM_MICROSOFT T")
        (simp_all add: allocate_aligned_nonzero [OF assms] del: mod_eq_0_iff_dvd)
  next
    case False
    with sat have "alignment \<le> EASTL_SYSTEM_ALLOCATOR_MIN_ALIGNMENT T
        \<and> alignmentOffset mod alignment = 0"
      by (simp add: spec_satisfiable_code [OF assms] del: mod_eq_0_iff_dvd)
    with False show ?thesis
      by (simp add: allocate_aligned_nonzero [OF assms] del: mod_eq_0_iff_dvd)
  qed
  then obtain c where c: "c \<in> set ?cs"
    "allocate_aligned T L n alignment alignmentOffset flags s = Inr (invoke L c s)" ..
  have "fst (L c (heap s)) = NULL \<longrightarrow>
      allocate_aligned T L n alignment alignmentOffset flags s = Inr (NULL, snd (invoke L c s))"
    using c(2) invoke_null [of L c s] by simp
  with c show "\<exists>c\<in>set ?cs.
      allocate_aligned T L n alignment alignmentOffset flags s = Inr (invoke L c s)
      \<and> (fst (L c (heap s)) = NULL \<longrightarrow>
           allocate_aligned T L n alignment alignmentOffset flags s
             = Inr (NULL, snd (invoke L c s)))"
    by (intro bexI [of _ c] conjI)
qed

theorem unsatisfiable_returns_null_witness:
  "allocate_aligned linux64 (test_libc 16) 100 8 3 0 fresh = Inr (NULL, fresh)
   \<and> allocate_aligned macos64 (test_libc 16) 100 64 0 0 fresh = Inr (NULL, fresh)
   \<and> allocate_aligned linux64 exhausted_libc 100 8 8 0 fresh
       = Inr (NULL, \<lparr>heap = 0, calls = [Memalign 8 100]\<rparr>)"
proof -
  have nz: "(8::64 word) \<noteq> 0" "(64::64 word) \<noteq> 0" by simp_all
  have u1: "\<not> spec_satisfiable linux64 8 3"
    by (simp add: spec_satisfiable_def has_aligned_allocate_def has_aligned_offset_allocate_def
        targets_available targets_microsoft)
  have u2: "\<not> spec_satisfiable macos64 64 0"
    by (simp add: spec_satisfiable_def has_aligned_allocate_def has_aligned_offset_allocate_def
        targets_available targets_microsoft targets_min_alignment)
  have s3: "spec_satisfiable linux64 8 8"
    by (simp add: spec_satisfiable_def has_aligned_allocate_def has_aligned_offset_allocate_def
        targets_available targets_microsoft)
  have a: "allocate_aligned linux64 (test_libc 16) 100 8 3 0 fresh = Inr (NULL, fresh)"
    using unsatisfiable_returns_null [OF nz(1), of linux64 3 "test_libc 16" 100 0 fresh] u1
    by simp
  have b: "allocate_aligned macos64 (test_libc 16) 100 64 0 0 fresh = Inr (NULL, fresh)"
    using unsatisfiable_returns_null [OF nz(2), of macos64 0 "test_libc 16" 100 0 fresh] u2
    by simp
  have "\<exists>c\<in>set [Aligned_malloc 100 8, Memalign 8 100, Aligned_offset_malloc 100 8 8, Malloc 100].
      allocate_aligned linux64 exhausted_libc 100 8 8 0 fresh
        = Inr (NULL, \<lparr>heap = 0, calls = [c]\<rparr>)"
    using unsatisfiable_returns_null [OF nz(1), of linux64 8 exhausted_libc 100 0 fresh] s3
    by (simp add: targets_min_alignment exhausted_libc_def invoke_def fresh_def)
  moreover have "allocate_aligned linux64 exhausted_libc 100 8 8 0 fresh
      = Inr (invoke exhausted_libc (Memalign 8 100) fresh)"
    by (simp add: allocate_aligned_def size_mod_def targets_available targets_microsoft)
  ultimately have c: "allocate_aligned linux64 exhausted_libc 100 8 8 0 fresh
       = Inr (NULL, \<lparr>heap = 0, calls = [Memalign 8 100]\<rparr>)"
    by (simp add: exhausted_libc_def invoke_def fresh_def)
  from a b c show ?thesis by (intro conjI)
qed

section \<open>Release of a block\<close>

lemma invoke_callsD: "invoke L c s = (p, s') \<Longrightarrow> calls s' = calls s @ [c]"
  using invoke_calls [of L c s] by simp

lemma deallocate_invokes:
  "deallocate T L p n s =
     snd (invoke L (if has_aligned_offset_allocate T then Aligned_free p else Free p) s)"
  by (simp add: deallocate_def has_aligned_offset_allocate_def)

lemma deallocate_calls:
  "calls (deallocate T L p n s) =
     calls s @ [if has_aligned_offset_allocate T then Aligned_free p else Free p]"
  by (simp add: deallocate_invokes invoke_calls)

lemma allocate_call:
  assumes "allocate T L n flags s = (p, s')"
  shows "\<exists>c\<in>set (if has_aligned_offset_allocate T
                  then [Aligned_malloc n (EASTL_SYSTEM_ALLOCATOR_MIN_ALIGNMENT T)]
                  else [Malloc n]).
           invoke L c s = (p, s')"
  using assms by (auto simp add: allocate_def has_aligned_offset_allocate_def split: if_splits)

lemma allocate_aligned_call:
  assumes "allocate_aligned T L n alignment alignmentOffset flags s = Inr (p, s')"
    and "p \<noteq> NULL"
  shows "\<exists>c\<in>set (if has_aligned_offset_allocate T
                  then [Aligned_malloc n alignment,
                        Aligned_offset_malloc n alignment alignmentOffset]
                  else [Malloc n, Memalign alignment n]).
           invoke L c s = (p, s')"
proof -
  have nz: "alignment \<noteq> 0"
  proof
    assume "alignment = 0"
    with assms(1) show False
      by (cases "EASTL_ALIGNED_MALLOC_AVAILABLE T") (simp_all add: division_by_zero_is_a_fault)
  qed
  note run = assms(1) [unfolded allocate_aligned_nonzero [OF nz]]
  show ?thesis
  proof (cases "EASTL_ALIGNED_MALLOC_AVAILABLE T")
    case True
    with run assms(2) show ?thesis
      by (cases "alignmentOffset mod alignment = 0"; cases "EA_PLATFORM_MICROSOFT T")
        (simp_all add: has_aligned_offset_allocate_def del: mod_eq_0_iff_dvd)
  next
    case False
    with run assms(2) show ?thesis
      by (cases "alignment \<le> EASTL_SYSTEM_ALLOCATOR_MIN_ALIGNMENT T
            \<and> alignmentOffset mod alignment = 0")
        (simp_all add: has_aligned_offset_allocate_def del: mod_eq_0_iff_dvd)
  qed
qed

text \<open>
  C7. When an \<open>allocate\<close> overload has returned a block, one primitive call produced
  it: the block and the world after the allocation are the C library's answer to that
  call. \<open>deallocate\<close> of that block, in any later world and with any size argument,
  is the C library's execution of the release call that it documents for that primitive:
  the world after \<open>deallocate\<close>, heap and record of calls, is the one that call leaves.
  On the targets
  with \<open>_aligned_malloc\<close> and \<open>_aligned_free\<close> (Microsoft, aligned malloc
  available) the block comes from \<open>_aligned_malloc\<close> or \<open>_aligned_offset_malloc\<close>
  and is released with \<open>_aligned_free\<close>; on every other target it comes from
  \<open>malloc\<close> or \<open>memalign\<close> and is released with \<open>free\<close>. The size argument
  does not change what \<open>deallocate\<close> does.
\<close>

theorem deallocate_uses_matching_free:
  assumes "p \<noteq> NULL"
    and "allocate T L n flags s = (p, s')
         \<or> allocate_aligned T L n alignment alignmentOffset flags s = Inr (p, s')"
  shows "\<exists>c\<in>set (if has_aligned_offset_allocate T
                  then [Aligned_malloc n (EASTL_SYSTEM_ALLOCATOR_MIN_ALIGNMENT T),
                        Aligned_malloc n alignment,
                        Aligned_offset_malloc n alignment alignmentOffset]
                  else [Malloc n, Memalign alignment n]).
           invoke L c s = (p, s')
           \<and> calls s' = calls s @ [c]
           \<and> (\<exists>f\<in>set (if has_aligned_offset_allocate T then [Aligned_free p] else [Free p]).
                 matching_free c p = Some f
                 \<and> deallocate T L p size1 later = snd (invoke L f later)
                 \<and> heap (deallocate T L p size1 later) = snd (L f (heap later))
                 \<and> calls (deallocate T L p size1 later) = calls later @ [f])
           \<and> deallocate T L p size1 later = deallocate T L p size2 later"
proof -
  let ?cs = "if has_aligned_offset_allocate T
             then [Aligned_malloc n (EASTL_SYSTEM_ALLOCATOR_MIN_ALIGNMENT T),
                   Aligned_malloc n alignment,
                   Aligned_offset_malloc n alignment alignmentOffset]
             else [Malloc n, Memalign alignment n]"
  have "\<exists>c\<in>set ?cs. invoke L c s = (p, s')"
    using assms(2)
  proof
    assume "allocate T L n flags s = (p, s')"
    from allocate_call [OF this] show ?thesis
      by (cases "has_aligned_offset_allocate T") simp_all
  next
    assume "allocate_aligned T L n alignment alignmentOffset flags s = Inr (p, s')"
    from allocate_aligned_call [OF this assms(1)] show ?thesis
      by (cases "has_aligned_offset_allocate T") auto
  qed
  then obtain c where c: "c \<in> set ?cs" "invoke L c s = (p, s')" ..
  have one: "calls s' = calls s @ [c]" using c(2) by (rule invoke_callsD)
  have two: "\<exists>f\<in>set (if has_aligned_offset_allocate T then [Aligned_free p] else [Free p]).
      matching_free c p = Some f
      \<and> deallocate T L p size1 later = snd (invoke L f later)
      \<and> heap (deallocate T L p size1 later) = snd (L f (heap later))
      \<and> calls (deallocate T L p size1 later) = calls later @ [f]"
    using c(1)
    by (cases "has_aligned_offset_allocate T")
      (auto simp: deallocate_invokes invoke_calls invoke_heap)
  have three: "deallocate T L p size1 later = deallocate T L p size2 later"
    by (simp add: deallocate_def)
  from c(2) one two three have "invoke L c s = (p, s')
      \<and> calls s' = calls s @ [c]
      \<and> (\<exists>f\<in>set (if has_aligned_offset_allocate T then [Aligned_free p] else [Free p]).
            matching_free c p = Some f
            \<and> deallocate T L p size1 later = snd (invoke L f later)
            \<and> heap (deallocate T L p size1 later) = snd (L f (heap later))
            \<and> calls (deallocate T L p size1 later) = calls later @ [f])
      \<and> deallocate T L p size1 later = deallocate T L p size2 later"
    by (intro conjI)
  then show ?thesis using c(1) by (rule bexI)
qed

theorem deallocate_uses_matching_free_witness:
  "allocate_aligned windows64 (test_libc 16) 100 8 3 0 fresh
     = Inr (5, \<lparr>heap = 1, calls = [Aligned_offset_malloc 100 8 3]\<rparr>)
   \<and> deallocate windows64 (test_libc 16) 5 100
        \<lparr>heap = 1, calls = [Aligned_offset_malloc 100 8 3]\<rparr>
       = \<lparr>heap = 0, calls = [Aligned_offset_malloc 100 8 3, Aligned_free 5]\<rparr>
   \<and> allocate_aligned linux64 (test_libc 16) 100 8 8 0 fresh
     = Inr (8, \<lparr>heap = 1, calls = [Memalign 8 100]\<rparr>)
   \<and> deallocate linux64 (test_libc 16) 8 100 \<lparr>heap = 1, calls = [Memalign 8 100]\<rparr>
       = \<lparr>heap = 0, calls = [Memalign 8 100, Free 8]\<rparr>"
proof -
  let ?w = "\<lparr>heap = 1::nat, calls = [Aligned_offset_malloc 100 8 (3::64 word)]\<rparr>"
  let ?l = "\<lparr>heap = 1::nat, calls = [Memalign 8 (100::64 word)]\<rparr>"
  have a: "allocate_aligned windows64 (test_libc 16) 100 8 3 0 fresh = Inr (5, ?w)"
    by (simp add: allocate_aligned_def size_mod_def targets_available targets_microsoft
        invoke_def fresh_def)
  have b: "allocate_aligned linux64 (test_libc 16) 100 8 8 0 fresh = Inr (8, ?l)"
    by (simp add: allocate_aligned_def size_mod_def targets_available targets_microsoft
        invoke_def fresh_def)
  have hw: "has_aligned_offset_allocate windows64" and hl: "\<not> has_aligned_offset_allocate linux64"
    by (simp_all add: has_aligned_offset_allocate_def targets_available targets_microsoft)
  have nz: "(5::64 word) \<noteq> NULL" "(8::64 word) \<noteq> NULL" by (simp_all add: NULL_def)
  have c: "deallocate windows64 (test_libc 16) 5 100 ?w
      = \<lparr>heap = 0, calls = [Aligned_offset_malloc 100 8 3, Aligned_free 5]\<rparr>"
    using deallocate_uses_matching_free [OF nz(1) disjI2 [OF a], of 100 ?w 100] hw
    by (auto simp: invoke_def)
  have d: "deallocate linux64 (test_libc 16) 8 100 ?l
      = \<lparr>heap = 0, calls = [Memalign 8 100, Free 8]\<rparr>"
    using deallocate_uses_matching_free [OF nz(2) disjI2 [OF b], of 100 ?l 100] hl
    by (auto simp: invoke_def)
  from a c b d show ?thesis by (intro conjI)
qed

end
